theory Spec2Isabelle
  imports Main
begin

section \<open>Values of the host language\<close>

text \<open>
  The values the code handles: what \<open>response.json()\<close> resolves with, what a query
  mapping holds, what is handed to the error constructor. \<open>Undefined\<close> is the result of
  reading a property that is not there. Numbers are the integer-valued ones.
\<close>

datatype jsvalue =
    Undefined
  | Null
  | Bool bool
  | Num int
  | Str string
  | Arr "jsvalue list"
  | Obj "(string \<times> jsvalue) list"

text \<open>An error object of the host: its name and its message.\<close>

datatype js_error = JsError (err_name: string) (message: string)

text \<open>
  A property of an options object: not there, there with the value \<open>undefined\<close>, or there
  with a value. The spread \<open>{...a, ...b}\<close> takes every property that \<open>b\<close> has, also one
  whose value is \<open>undefined\<close>.
\<close>

datatype 'a opt_field = Absent | Undef | Val 'a

definition spread_prop :: "'a opt_field \<Rightarrow> 'a opt_field \<Rightarrow> 'a opt_field" where
  "spread_prop a b = (case b of Absent \<Rightarrow> a | Undef \<Rightarrow> Undef | Val v \<Rightarrow> Val v)"

section \<open>Configuration\<close>

text \<open>
  A number as an option can hold it: not a number, or a whole number. Fractions and the
  infinities are outside the model.
\<close>

datatype number = NaN | Whole int

text \<open>
  Modelled from the spec: the type \<open>ClientOptions.Configuration\<close> is declared in
  \<open>./models\<close>, which is not among the sources. Of the construction options that the
  specification lists, the code here reads the timeout (the field \<open>cfg_timeout\<close>, the name
  \<open>timeout\<close> being that of the field of \<open>WebFetch\<close> below); \<open>cfg_validateStatus\<close> is the
  option \<open>validateStatus\<close>, which a caller may supply; the other options are only read by
  \<open>getBaseHttpRequestURL\<close> of the base class, so they are kept as a map from option name
  to value.
\<close>

record configuration =
  cfg_timeout :: "number opt_field"
  cfg_validateStatus :: "(int \<Rightarrow> bool) opt_field"
  others :: "string \<rightharpoonup> jsvalue"

text \<open>\<open>{...HttpClient.DefaultOptions, ...configOptions}\<close>; \<open>configOptions\<close> is optional.\<close>

definition spread :: "configuration \<Rightarrow> configuration option \<Rightarrow> configuration" where
  "spread d c =
     (case c of
        None \<Rightarrow> d
      | Some c' \<Rightarrow> \<lparr>cfg_timeout = spread_prop (cfg_timeout d) (cfg_timeout c'),
                    cfg_validateStatus = spread_prop (cfg_validateStatus d) (cfg_validateStatus c'),
                    others = others d ++ others c'\<rparr>)"

text \<open>
  \<open>(this.clientOptions.timeout || 60) * 1000\<close>: the left operand of \<open>||\<close> is taken unless
  it is falsy, and of the numbers \<open>0\<close> and \<open>NaN\<close> are falsy. The product is the exact one,
  which is what the code computes as long as it stays below \<open>2 ^ 53\<close> in magnitude.
\<close>

definition getRequestTimeoutInMilliseconds :: "configuration \<Rightarrow> int" where
  "getRequestTimeoutInMilliseconds clientOptions =
     (case cfg_timeout clientOptions of
        Val NaN \<Rightarrow> 60
      | Val (Whole t) \<Rightarrow> (if t = 0 then 60 else t)
      | Undef \<Rightarrow> 60
      | Absent \<Rightarrow> 60) * 1000"

section \<open>Strings\<close>

fun join :: "string \<Rightarrow> string list \<Rightarrow> string" where
  "join sep [] = []"
| "join sep [x] = x"
| "join sep (x # y # ys) = x @ sep @ join sep (y # ys)"

fun split_on :: "char \<Rightarrow> string \<Rightarrow> string list" where
  "split_on c [] = [[]]"
| "split_on c (x # xs) =
     (if x = c then [] # split_on c xs
      else (case split_on c xs of [] \<Rightarrow> [[x]] | p # ps \<Rightarrow> (x # p) # ps))"

text \<open>The part before the first \<open>c\<close>, and the part after it when there is a \<open>c\<close>.\<close>

definition split_first :: "char \<Rightarrow> string \<Rightarrow> string \<times> string option" where
  "split_first c s =
     (takeWhile (\<lambda>x. x \<noteq> c) s,
      case dropWhile (\<lambda>x. x \<noteq> c) s of [] \<Rightarrow> None | _ # r \<Rightarrow> Some r)"

definition ascii_lower :: "char \<Rightarrow> char" where
  "ascii_lower c =
     (let n = (of_char c :: nat) in if 65 \<le> n \<and> n \<le> 90 then char_of (n + 32) else c)"

definition byte_lowercase :: "string \<Rightarrow> string" where
  "byte_lowercase s = map ascii_lower s"

definition digit_char :: "nat \<Rightarrow> char" where
  "digit_char d = char_of (48 + d)"

function show_nat :: "nat \<Rightarrow> string" where
  "show_nat n = (if n < 10 then [digit_char n] else show_nat (n div 10) @ [digit_char (n mod 10)])"
  by pat_completeness auto
termination
  by (relation "measure (\<lambda>n. n)") auto

declare show_nat.simps [simp del]

definition show_int :: "int \<Rightarrow> string" where
  "show_int i = (if i < 0 then ''-'' @ show_nat (nat (- i)) else show_nat (nat i))"

text \<open>
  The conversion of a value to a string, as the constructor of \<open>URLSearchParams\<close> applies it
  to each member of a pair. An array joins its elements with commas, \<open>null\<close> and
  \<open>undefined\<close> elements giving the empty string.
\<close>

fun ToString :: "jsvalue \<Rightarrow> string" and Array_join :: "jsvalue list \<Rightarrow> string" where
  "ToString Undefined = ''undefined''"
| "ToString Null = ''null''"
| "ToString (Bool b) = (if b then ''true'' else ''false'')"
| "ToString (Num n) = show_int n"
| "ToString (Str s) = s"
| "ToString (Arr vs) = Array_join vs"
| "ToString (Obj ps) = ''[object Object]''"
| "Array_join [] = []"
| "Array_join (v # vs) =
     (if v = Undefined \<or> v = Null then [] else ToString v)
     @ (if vs = [] then [] else '','' @ Array_join vs)"

section \<open>Property access\<close>

text \<open>
  \<open>v.k\<close> for the two names the code reads, \<open>ErrorCode\<close> and \<open>data\<close>, which no built-in
  prototype defines: on \<open>null\<close> and \<open>undefined\<close> the access throws a TypeError, on an
  object it gives the own property, and \<open>undefined\<close> everywhere else. An object lists its
  own properties, each name once. The message of the TypeError is the wording of V8; no
  statement depends on it.
\<close>

definition null_access :: "string \<Rightarrow> string \<Rightarrow> js_error" where
  "null_access what k =
     JsError ''TypeError'' (''Cannot read properties of '' @ what @ '' (reading '' @ [CHR 0x27] @ k @ [CHR 0x27] @ '')'')"

fun get_property :: "jsvalue \<Rightarrow> string \<Rightarrow> js_error + jsvalue" where
  "get_property Null k = Inl (null_access ''null'' k)"
| "get_property Undefined k = Inl (null_access ''undefined'' k)"
| "get_property (Obj ps) k = Inr (case map_of ps k of None \<Rightarrow> Undefined | Some v \<Rightarrow> v)"
| "get_property (Bool b) k = Inr Undefined"
| "get_property (Num n) k = Inr Undefined"
| "get_property (Str s) k = Inr Undefined"
| "get_property (Arr vs) k = Inr Undefined"

text \<open>\<open>typeof v === "number"\<close>\<close>

fun is_number :: "jsvalue \<Rightarrow> bool" where
  "is_number (Num n) = True"
| "is_number Undefined = False"
| "is_number Null = False"
| "is_number (Bool b) = False"
| "is_number (Str s) = False"
| "is_number (Arr vs) = False"
| "is_number (Obj ps) = False"

section \<open>Headers\<close>

text \<open>
  A \<open>Headers\<close> object: its header list, in order, and its guard. The guard \<open>immutable\<close>
  (the headers of a received response) makes every change throw a TypeError; under the
  guards \<open>none\<close>, \<open>request\<close> and \<open>response\<close> a \<open>Content-Type\<close> header is accepted, and they
  are one constructor here.
\<close>

datatype guard = Mutable | Immutable

record Headers =
  guard :: guard
  header_list :: "(string \<times> string) list"

definition same_name :: "string \<Rightarrow> string \<times> string \<Rightarrow> bool" where
  "same_name name h = (byte_lowercase (fst h) = byte_lowercase name)"

text \<open>
  \<open>headers.append(name, value)\<close> for a well-formed name and value: the pair goes to the
  end of the list, under the spelling of the first header of that name when there is one.
  On immutable headers it throws a TypeError (with the message Node gives it).
\<close>

definition Headers_append :: "Headers \<Rightarrow> string \<Rightarrow> string \<Rightarrow> js_error + Headers" where
  "Headers_append h name v =
     (if guard h = Immutable then Inl (JsError ''TypeError'' ''immutable'')
      else Inr (h\<lparr>header_list := header_list h @
                  [(case find (same_name name) (header_list h) of
                      None \<Rightarrow> name
                    | Some (n, _) \<Rightarrow> n, v)]\<rparr>))"

text \<open>\<open>headers.get(name)\<close>: the values of all headers of that name, joined by comma and space.\<close>

definition Headers_get :: "Headers \<Rightarrow> string \<Rightarrow> string option" where
  "Headers_get h name =
     (case filter (same_name name) (header_list h) of
        [] \<Rightarrow> None
      | x # xs \<Rightarrow> Some (join '', '' (map snd (x # xs))))"


section \<open>URLs and query strings\<close>

text \<open>
  A \<open>URL\<close> object, with the properties the code reads. Its \<open>searchParams\<close> is a
  \<open>URLSearchParams\<close> object, which keeps the list of name-value pairs in an internal slot.
\<close>

record URL =
  href :: string
  origin :: string
  pathname :: string
  searchParams :: "(string \<times> string) list"

text \<open>
  \<open>Object.entries(o)\<close> lists the own enumerable string-keyed properties of \<open>o\<close>. A
  \<open>URLSearchParams\<close> object has none: its pairs are reached through its iterator and its
  methods, not through properties. So \<open>Object.entries(url.searchParams)\<close> is the empty
  array, whatever the pairs are.
\<close>

definition Object_entries_URLSearchParams :: "(string \<times> string) list \<Rightarrow> (string \<times> jsvalue) list" where
  "Object_entries_URLSearchParams sp = []"

text \<open>
  A plain object used as a mapping (\<open>Record<string, any>\<close>) is the list of its own
  properties in enumeration order, which is what \<open>Object.entries\<close> returns.
\<close>

definition Object_entries :: "(string \<times> jsvalue) list \<Rightarrow> (string \<times> jsvalue) list" where
  "Object_entries ps = ps"

text \<open>\<open>new URLSearchParams(pairs)\<close>: every pair is kept, in order, both members as strings.\<close>

definition URLSearchParams_new :: "(string \<times> jsvalue) list \<Rightarrow> (string \<times> string) list" where
  "URLSearchParams_new pairs = map (\<lambda>(k, v). (k, ToString v)) pairs"

text \<open>
  The \<open>application/x-www-form-urlencoded\<close> serialisation of a string of bytes: letters,
  digits and \<open>*-._\<close> stay, a space becomes \<open>+\<close>, every other byte is percent-encoded.
\<close>

definition hex_digit :: "nat \<Rightarrow> char" where
  "hex_digit d = (if d < 10 then char_of (48 + d) else char_of (55 + d))"

definition urlencoded_byte :: "char \<Rightarrow> string" where
  "urlencoded_byte c =
     (let n = (of_char c :: nat) in
      if c = CHR '' '' then ''+''
      else if (48 \<le> n \<and> n \<le> 57) \<or> (65 \<le> n \<and> n \<le> 90) \<or> (97 \<le> n \<and> n \<le> 122)
              \<or> c = CHR ''*'' \<or> c = CHR ''-'' \<or> c = CHR ''.'' \<or> c = CHR ''_'' then [c]
      else [CHR ''%'', hex_digit (n div 16), hex_digit (n mod 16)])"

definition urlencoded :: "string \<Rightarrow> string" where
  "urlencoded s = concat (map urlencoded_byte s)"

definition serialize_pair :: "string \<times> string \<Rightarrow> string" where
  "serialize_pair kv = urlencoded (fst kv) @ ''='' @ urlencoded (snd kv)"

text \<open>The string a \<open>URLSearchParams\<close> object gives inside a template literal.\<close>

definition URLSearchParams_toString :: "(string \<times> string) list \<Rightarrow> string" where
  "URLSearchParams_toString ps = join ''&'' (map serialize_pair ps)"

section \<open>The platform\<close>

text \<open>
  \<open>ClientOptions.HttpMethod\<close> is declared in \<open>./models\<close>; its members here are the closed
  set the specification gives.
\<close>

datatype HttpMethod = GET | POST | PUT | PATCH | DELETE

text \<open>
  The arguments of one call of \<open>fetch\<close>: the address and the members of the options
  object. \<open>init_body\<close> is \<open>None\<close> when the options carry no \<open>body\<close>. The signal is that
  of the controller which the timer of the same number aborts.
\<close>

record fetch_call =
  input :: string
  init_method :: HttpMethod
  init_headers :: Headers
  init_signal :: nat
  init_body :: "jsvalue option"

text \<open>
  A received response: its status code and what \<open>response.json()\<close> settles with, an error
  (\<open>Inl\<close>) when the body is not JSON.
\<close>

record response =
  status :: int
  json :: "js_error + jsvalue"

text \<open>
  What happens while the call waits for \<open>fetch\<close>: the promise rejects before the timer
  runs (a transport failure), it resolves with a response before the timer runs, or the
  timer runs first.
\<close>

datatype net_outcome = Rejects js_error | Responds response | TimerFires

text \<open>
  What the code takes from its host: the constructor \<open>new URL(input, base)\<close>, which throws
  a TypeError on an input it cannot parse, \<open>fetch\<close> with the network behind it, and the
  error with which an aborted \<open>fetch\<close> rejects.
\<close>

record platform =
  URL_new :: "string \<Rightarrow> string option \<Rightarrow> js_error + URL"
  fetch :: "fetch_call \<Rightarrow> net_outcome"
  abort_error :: js_error

subsection \<open>Timers\<close>

text \<open>
  The timers that are armed (number and delay in milliseconds), and the next number. The
  delay that the host arms is the one asked for when that lies between 1 and
  \<open>2 ^ 31 - 1\<close>; for any other delay Node arms one millisecond.
\<close>

record timers =
  armed :: "(nat \<times> int) list"
  next_id :: nat

definition host_delay :: "int \<Rightarrow> int" where
  "host_delay ms = (if 1 \<le> ms \<and> ms \<le> 2147483647 then ms else 1)"

definition setTimeout :: "int \<Rightarrow> timers \<Rightarrow> nat \<times> timers" where
  "setTimeout ms T =
     (next_id T, \<lparr>armed = armed T @ [(next_id T, host_delay ms)], next_id = Suc (next_id T)\<rparr>)"

definition clearTimeout :: "nat \<Rightarrow> timers \<Rightarrow> timers" where
  "clearTimeout i T = T\<lparr>armed := filter (\<lambda>t. fst t \<noteq> i) (armed T)\<rparr>"

text \<open>A timer that runs its callback is no longer armed.\<close>

definition timer_runs :: "nat \<Rightarrow> timers \<Rightarrow> timers" where
  "timer_runs i T = T\<lparr>armed := filter (\<lambda>t. fst t \<noteq> i) (armed T)\<rparr>"

definition is_armed :: "nat \<Rightarrow> timers \<Rightarrow> bool" where
  "is_armed i T = (i \<in> set (map fst (armed T)))"

subsection \<open>A small URL parser\<close>

text \<open>
  A parser for the concrete runs below. It agrees with the host's on \<open>http\<close> and \<open>https\<close>
  addresses with a lower-case host and no port or user, whose path and query need no
  escaping and have no dot segments, and on a path that starts with one slash against
  such a base. It rejects every other input, which the host's parser does not; the
  general statements are about any parser.
\<close>

definition invalid_url :: js_error where
  "invalid_url = JsError ''TypeError'' ''Invalid URL''"

definition parse_query :: "string \<Rightarrow> (string \<times> string) list" where
  "parse_query q =
     map (\<lambda>p. case split_first (CHR ''='') p of (k, v) \<Rightarrow> (k, case v of None \<Rightarrow> [] | Some v' \<Rightarrow> v'))
         (filter (\<lambda>p. p \<noteq> []) (split_on (CHR ''&'') q))"

definition parse_absolute :: "string \<Rightarrow> js_error + URL" where
  "parse_absolute s =
     (case (if take 8 s = ''https://'' then Some ''https://''
            else if take 7 s = ''http://'' then Some ''http://'' else None) of
        None \<Rightarrow> Inl invalid_url
      | Some scheme \<Rightarrow>
          (let rest = drop (length scheme) s;
               is_host = (\<lambda>x. x \<noteq> CHR ''/'' \<and> x \<noteq> CHR ''?'' \<and> x \<noteq> CHR ''#'');
               host = takeWhile is_host rest;
               (before_hash, fragment) = split_first (CHR ''#'') (dropWhile is_host rest);
               (path, query) = split_first (CHR ''?'') before_hash;
               path' = (if path = [] then ''/'' else path)
           in if host = [] then Inl invalid_url
              else Inr \<lparr>href = scheme @ host @ path'
                              @ (case query of None \<Rightarrow> [] | Some q \<Rightarrow> ''?'' @ q)
                              @ (case fragment of None \<Rightarrow> [] | Some f \<Rightarrow> ''#'' @ f),
                        origin = scheme @ host,
                        pathname = path',
                        searchParams = (case query of None \<Rightarrow> [] | Some q \<Rightarrow> parse_query q)\<rparr>))"

definition simple_URL :: "string \<Rightarrow> string option \<Rightarrow> js_error + URL" where
  "simple_URL s base =
     (case base of
        None \<Rightarrow> parse_absolute s
      | Some b \<Rightarrow>
          (case parse_absolute b of
             Inl e \<Rightarrow> Inl e
           | Inr bu \<Rightarrow>
               (case parse_absolute s of
                  Inr u \<Rightarrow> Inr u
                | Inl e \<Rightarrow>
                    if take 1 s = ''/'' \<and> take 2 s \<noteq> ''//'' then parse_absolute (origin bu @ s)
                    else Inl invalid_url)))"


section \<open>Results and errors\<close>

text \<open>
  Modelled from the spec: the class \<open>PostmarkError\<close> of \<open>./errors\<close> is not among the
  sources. An error has a message, an error code and an HTTP status, the last two being
  there only when the constructor was given them; the model keeps the arguments of the
  constructor as they were passed.
\<close>

record PostmarkError =
  error_message :: string
  errorCode :: "jsvalue option"
  httpStatus :: "int option"

text \<open>\<open>new PostmarkError(message)\<close>\<close>

definition PostmarkError_of_message :: "string \<Rightarrow> PostmarkError" where
  "PostmarkError_of_message m = \<lparr>error_message = m, errorCode = None, httpStatus = None\<rparr>"

text \<open>\<open>new PostmarkError(message, code, statusCode)\<close>\<close>

definition PostmarkError_new :: "string \<Rightarrow> jsvalue \<Rightarrow> int \<Rightarrow> PostmarkError" where
  "PostmarkError_new m c st = \<lparr>error_message = m, errorCode = Some c, httpStatus = Some st\<rparr>"

text \<open>\<open>{ success: false, error: E } | { success: true, data: D }\<close>\<close>

datatype result = Failure PostmarkError | Success jsvalue

section \<open>WebFetch\<close>

record WebFetch =
  baseURL :: string
  timeout :: int
  validateStatus :: "int \<Rightarrow> bool"

text \<open>The constructor; \<open>responseType\<close> is accepted and not stored.\<close>

definition WebFetch_new :: "string \<Rightarrow> int \<Rightarrow> (int \<Rightarrow> bool) \<Rightarrow> WebFetch" where
  "WebFetch_new b t v = \<lparr>baseURL = b, timeout = t, validateStatus = v\<rparr>"

text \<open>The argument of \<open>request\<close>; \<open>http_method\<close> is its member \<open>method\<close>.\<close>

record request_spec =
  url :: string
  http_method :: HttpMethod
  data :: jsvalue
  headers :: Headers
  params :: "(string \<times> jsvalue) list"

text \<open>
  \<open>addSearchParams\<close>: a new URL from the origin and the path of \<open>url\<close>, a question mark,
  and the serialisation of the entries of \<open>url.searchParams\<close> followed by those of
  \<open>params\<close>.
\<close>

definition addSearchParams_string :: "URL \<Rightarrow> (string \<times> jsvalue) list \<Rightarrow> string" where
  "addSearchParams_string u ps =
     origin u @ pathname u @ ''?''
     @ URLSearchParams_toString
         (URLSearchParams_new (Object_entries_URLSearchParams (searchParams u) @ Object_entries ps))"

definition addSearchParams :: "platform \<Rightarrow> URL \<Rightarrow> (string \<times> jsvalue) list \<Rightarrow> js_error + URL" where
  "addSearchParams P u ps = URL_new P (addSearchParams_string u ps) None"

text \<open>
  \<open>request\<close> suspends once, at \<open>await fetch(...)\<close>. Up to there it has thrown (the promise
  of \<open>request\<close> rejects), or returned a result from the \<open>catch\<close> block, or issued the call
  and waits; a waiting call keeps the executor it runs on (\<open>this\<close>), its timer and the
  call it issued.
\<close>

record pending =
  this :: nat
  timer :: nat
  call :: fetch_call

datatype begun = Escaped js_error | Finished result | Awaiting pending

text \<open>The \<open>catch\<close> block: a failure with the message of what was caught.\<close>

definition caught :: "js_error \<Rightarrow> result" where
  "caught e = Failure (PostmarkError_of_message (message e))"

text \<open>
  Lines 29 to 40. The timer is set and the header appended before the \<open>try\<close> block, so
  an exception there is not caught; the two constructions of a URL are inside it.
\<close>

definition request_begin :: "platform \<Rightarrow> WebFetch \<Rightarrow> nat \<Rightarrow> request_spec \<Rightarrow> timers \<Rightarrow> begun \<times> timers" where
  "request_begin P ex self spec T =
     (case setTimeout (WebFetch.timeout ex) T of
        (tid, T1) \<Rightarrow>
          (case Headers_append (headers spec) ''Content-Type'' ''application/json'' of
             Inl e \<Rightarrow> (Escaped e, T1)
           | Inr hs \<Rightarrow>
               (case URL_new P (url spec) (Some (baseURL ex)) of
                  Inl e \<Rightarrow> (Finished (caught e), T1)
                | Inr u \<Rightarrow>
                    (case addSearchParams P u (params spec) of
                       Inl e \<Rightarrow> (Finished (caught e), T1)
                     | Inr u' \<Rightarrow>
                         (Awaiting \<lparr>this = self, timer = tid,
                                    call = \<lparr>input = href u', init_method = http_method spec,
                                            init_headers = hs, init_signal = tid,
                                            init_body = None\<rparr>\<rparr>, T1)))))"

text \<open>
  Lines 41 to 65, from the point where \<open>fetch\<close> settles. \<open>clearTimeout\<close> is called on a
  response only. The body is parsed before the status is looked at, and
  \<open>typeof data.ErrorCode === "number" && data.ErrorCode\<close> is the error code when it is a
  number and \<open>false\<close> otherwise.
\<close>

definition request_resume :: "platform \<Rightarrow> WebFetch \<Rightarrow> pending \<Rightarrow> net_outcome \<Rightarrow> timers \<Rightarrow> result \<times> timers" where
  "request_resume P ex p out T =
     (case out of
        Rejects e \<Rightarrow> (caught e, T)
      | TimerFires \<Rightarrow> (caught (abort_error P), timer_runs (timer p) T)
      | Responds r \<Rightarrow>
          (let T1 = clearTimeout (timer p) T in
           case json r of
             Inl e \<Rightarrow> (caught e, T1)
           | Inr d \<Rightarrow>
               if \<not> validateStatus ex (status r) then
                 (case get_property d ''ErrorCode'' of
                    Inl e \<Rightarrow> (caught e, T1)
                  | Inr c \<Rightarrow>
                      (Failure (PostmarkError_new ''Request failed''
                                  (if is_number c then c else Bool False) (status r)), T1))
               else
                 (case get_property d ''data'' of
                    Inl e \<Rightarrow> (caught e, T1)
                  | Inr v \<Rightarrow> (Success v, T1))))"

text \<open>
  The objects of class \<open>WebFetch\<close> live in a store and are referred to by address.
  \<open>request\<close> on the object at \<open>self\<close>: \<open>Inl\<close> is an exception that escapes.
\<close>

definition request :: "platform \<Rightarrow> (nat \<Rightarrow> WebFetch) \<Rightarrow> nat \<Rightarrow> request_spec \<Rightarrow> timers \<Rightarrow> (js_error + result) \<times> timers" where
  "request P hp self spec T =
     (case request_begin P (hp self) self spec T of
        (Escaped e, T1) \<Rightarrow> (Inl e, T1)
      | (Finished r, T1) \<Rightarrow> (Inr r, T1)
      | (Awaiting p, T1) \<Rightarrow>
          (case request_resume P (hp (this p)) p (fetch P (call p)) T1 of
             (r, T2) \<Rightarrow> (Inr r, T2)))"

section \<open>WebFetchHTTPClient\<close>

text \<open>
  What the class takes from its base class \<open>HttpClient\<close> of \<open>./models\<close>: the default
  options and the method that builds the base URL from \<open>this.clientOptions\<close>.
\<close>

record base_class =
  DefaultOptions :: configuration
  getBaseHttpRequestURL :: "configuration \<Rightarrow> string"

record store =
  heap :: "nat \<Rightarrow> WebFetch"
  next_free :: nat

record client_object =
  clientOptions :: configuration
  client :: nat

text \<open>The predicate that \<open>initHttpClient\<close> passes: \<open>status >= 200 && status < 300\<close>.\<close>

definition default_validateStatus :: "int \<Rightarrow> bool" where
  "default_validateStatus st = (st \<ge> 200 \<and> st < 300)"

text \<open>
  \<open>initHttpClient\<close>: the options are the defaults overridden by \<open>configOptions\<close>, and
  \<open>this.client\<close> becomes a newly allocated \<open>WebFetch\<close>.
\<close>

definition initHttpClient :: "base_class \<Rightarrow> configuration option \<Rightarrow> client_object \<times> store \<Rightarrow> client_object \<times> store" where
  "initHttpClient B configOptions cs =
     (case cs of
        (c, s) \<Rightarrow>
          (let opts = spread (DefaultOptions B) configOptions;
               ex = WebFetch_new (getBaseHttpRequestURL B opts)
                                 (getRequestTimeoutInMilliseconds opts)
                                 default_validateStatus;
               a = next_free s
           in (\<lparr>clientOptions = opts, client = a\<rparr>,
               \<lparr>heap = (heap s)(a := ex), next_free = Suc a\<rparr>)))"

text \<open>What a call of \<open>httpRequest\<close> throws: an error of the host, or the error of a failure.\<close>

datatype thrown = Native js_error | Api PostmarkError

definition httpRequest :: "platform \<Rightarrow> client_object \<times> store \<Rightarrow> HttpMethod \<Rightarrow> string \<Rightarrow> (string \<times> jsvalue) list \<Rightarrow> jsvalue \<Rightarrow> Headers \<Rightarrow> timers \<Rightarrow> (thrown + jsvalue) \<times> timers" where
  "httpRequest P cs m path queryParameters body requestHeaders T =
     (case request P (heap (snd cs)) (client (fst cs))
             \<lparr>url = path, http_method = m, data = body, headers = requestHeaders,
              params = queryParameters\<rparr> T of
        (Inl e, T1) \<Rightarrow> (Inl (Native e), T1)
      | (Inr (Success d), T1) \<Rightarrow> (Inr d, T1)
      | (Inr (Failure err), T1) \<Rightarrow> (Inl (Api err), T1))"

text \<open>A platform for the concrete runs: the small parser, and a network that always does the same.\<close>

definition simple_platform :: "net_outcome \<Rightarrow> platform" where
  "simple_platform out =
     \<lparr>URL_new = simple_URL, fetch = (\<lambda>c. out),
      abort_error = JsError ''AbortError'' ''This operation was aborted''\<rparr>"


section \<open>Derived notions and concrete objects\<close>

text \<open>The call of \<open>fetch\<close> that a started request has issued, when it has issued one.\<close>

definition issued :: "begun \<Rightarrow> fetch_call option" where
  "issued b = (case b of Awaiting p \<Rightarrow> Some (call p) | Escaped e \<Rightarrow> None | Finished r \<Rightarrow> None)"

text \<open>\<open>this.client\<close>: the object that the field \<open>client\<close> refers to.\<close>

definition this_client :: "client_object \<times> store \<Rightarrow> WebFetch" where
  "this_client cs = heap (snd cs) (client (fst cs))"

text \<open>
  A base class whose defaults leave the timeout unset and whose base URL is \<open>https://\<close>
  followed by the option \<open>requestHost\<close> (or a fixed host when that is unset), a client
  object before its first initialisation, and the inputs of the concrete runs.
\<close>

definition example_base :: base_class where
  "example_base =
     \<lparr>DefaultOptions = \<lparr>cfg_timeout = Absent, cfg_validateStatus = Absent, others = Map.empty\<rparr>,
      getBaseHttpRequestURL =
        (\<lambda>c. case others c ''requestHost'' of
               Some (Str h) \<Rightarrow> ''https://'' @ h
             | _ \<Rightarrow> ''https://api.postmarkapp.com'')\<rparr>"

definition host :: "string \<Rightarrow> configuration option" where
  "host h = Some \<lparr>cfg_timeout = Absent, cfg_validateStatus = Absent,
                   others = [''requestHost'' \<mapsto> Str h]\<rparr>"

definition fresh_client :: "client_object \<times> store" where
  "fresh_client =
     (\<lparr>clientOptions = \<lparr>cfg_timeout = Absent, cfg_validateStatus = Absent, others = Map.empty\<rparr>,
       client = 0\<rparr>,
      \<lparr>heap = (\<lambda>a. WebFetch_new [] 0 (\<lambda>st. False)), next_free = 0\<rparr>)"

definition example_client :: "configuration option \<Rightarrow> client_object \<times> store" where
  "example_client configOptions = initHttpClient example_base configOptions fresh_client"




definition example_executor :: WebFetch where
  "example_executor = WebFetch_new ''https://api.postmarkapp.com'' 60000 default_validateStatus"

definition no_timers :: timers where
  "no_timers = \<lparr>armed = [], next_id = 0\<rparr>"

definition plain_headers :: Headers where
  "plain_headers = \<lparr>guard = Mutable, header_list = []\<rparr>"

definition example_spec :: "Headers \<Rightarrow> request_spec" where
  "example_spec hs =
     \<lparr>url = ''/x?a=1'', http_method = GET, data = Null, headers = hs, params = [(''b'', Num 2)]\<rparr>"

definition text_plain_headers :: Headers where
  "text_plain_headers = \<lparr>guard = Mutable, header_list = [(''content-type'', ''text/plain'')]\<rparr>"

text \<open>The waiting call that the concrete request issues, \<open>l\<close> being the headers it sends.\<close>

definition example_pending :: "(string \<times> string) list \<Rightarrow> pending" where
  "example_pending l =
     \<lparr>this = 0, timer = 0,
      call = \<lparr>input = ''https://api.postmarkapp.com/x?b=2'', init_method = GET,
              init_headers = \<lparr>guard = Mutable, header_list = l\<rparr>,
              init_signal = 0, init_body = None\<rparr>\<rparr>"

text \<open>Responses: one with a JSON body, one whose body is a page of HTML.\<close>

definition json_response :: "int \<Rightarrow> jsvalue \<Rightarrow> net_outcome" where
  "json_response st d = Responds \<lparr>status = st, json = Inr d\<rparr>"

definition html_response :: "int \<Rightarrow> net_outcome" where
  "html_response st = Responds \<lparr>status = st, json = Inl (JsError ''SyntaxError'' ''Unexpected token <'')\<rparr>"

text \<open>
  A client initialised twice, for two hosts, and the call that a request on the first
  executor is waiting on.
\<close>

definition first_client :: "client_object \<times> store" where
  "first_client = initHttpClient example_base (host ''first.example'') fresh_client"

definition second_client :: "client_object \<times> store" where
  "second_client = initHttpClient example_base (host ''second.example'') first_client"

definition first_pending :: pending where
  "first_pending =
     \<lparr>this = 0, timer = 0,
      call = \<lparr>input = ''https://first.example/x?b=2'', init_method = GET,
              init_headers = \<lparr>guard = Mutable, header_list = [(''Content-Type'', ''application/json'')]\<rparr>,
              init_signal = 0, init_body = None\<rparr>\<rparr>"


text \<open>
  \<open>append\<close> changes the object it is called on, which is the one the caller passed: the
  headers of the caller as a call of \<open>request\<close> leaves them.
\<close>

definition headers_after_request :: "Headers \<Rightarrow> Headers" where
  "headers_after_request hs =
     (case Headers_append hs ''Content-Type'' ''application/json'' of
        Inl e \<Rightarrow> hs
      | Inr hs' \<Rightarrow> hs')"

section \<open>Facts about the two phases of a request\<close>


lemma initHttpClient_client:
  "this_client (initHttpClient B configOptions cs) =
     WebFetch_new (getBaseHttpRequestURL B (spread (DefaultOptions B) configOptions))
                  (getRequestTimeoutInMilliseconds (spread (DefaultOptions B) configOptions))
                  default_validateStatus"
  by (cases cs) (simp add: initHttpClient_def Let_def this_client_def)

lemma initHttpClient_store:
  "client (fst (initHttpClient B c cs)) = next_free (snd cs)"
  "next_free (snd (initHttpClient B c cs)) = Suc (next_free (snd cs))"
  "clientOptions (fst (initHttpClient B c cs)) = spread (DefaultOptions B) c"
  "a \<noteq> next_free (snd cs) \<Longrightarrow> heap (snd (initHttpClient B c cs)) a = heap (snd cs) a"
  by (cases cs; simp add: initHttpClient_def Let_def)+

lemma request_begin_data:
  "request_begin P ex a (spec\<lparr>data := b\<rparr>) T = request_begin P ex a spec T"
  by (simp add: request_begin_def split: prod.splits sum.splits)

lemma request_begin_Awaiting:
  assumes "fst (request_begin P ex a spec T) = Awaiting p"
  shows "this p = a" and "timer p = next_id T" and "guard (headers spec) = Mutable"
    and "init_body (call p) = None" and "init_method (call p) = http_method spec"
    and "init_signal (call p) = next_id T"
    and "Headers_append (headers spec) ''Content-Type'' ''application/json'' = Inr (init_headers (call p))"
  using assms
  by (cases "guard (headers spec)";
      auto simp: request_begin_def setTimeout_def Headers_append_def split: sum.splits if_splits)+

section \<open>Query parameters\<close>

text \<open>
  The string from which \<open>addSearchParams\<close> builds the new URL has the entries of \<open>params\<close>
  as its query, all of them and in order, and nothing of \<open>url.searchParams\<close>.
\<close>

lemma addSearchParams_string_query:
  "addSearchParams_string u ps =
     origin u @ pathname u @ ''?'' @ join ''&'' (map (\<lambda>(k, v). urlencoded k @ ''='' @ urlencoded (ToString v)) ps)"
  by (simp add: addSearchParams_string_def Object_entries_URLSearchParams_def Object_entries_def
        URLSearchParams_new_def URLSearchParams_toString_def serialize_pair_def
        split_def comp_def)

text \<open>
  C1. A path that carries query parameters, with a non-empty explicit mapping: the
  address of the request should hold the parameters of the path first and those of the
  mapping after them. Run on the path \<open>/x?a=1\<close> with the mapping \<open>{b: 2}\<close>, the URL that
  is parsed from the path has the parameter \<open>a=1\<close>, and the code asks for \<open>/x?b=2\<close>: the
  parameter of the path is gone.
\<close>

theorem embedded_query_dropped:
  "map_sum message searchParams (simple_URL ''/x?a=1'' (Some (baseURL example_executor)))
     = Inr [(''a'', ''1'')]
   \<and> map_option input (issued (fst (request_begin (simple_platform TimerFires) example_executor 0
        (example_spec plain_headers) no_timers)))
     = Some ''https://api.postmarkapp.com/x?b=2''"
  by code_simp

section \<open>The duration of the timer\<close>




section \<open>The request body\<close>

text \<open>
  C2. The body is never attached to the call of \<open>fetch\<close>: two requests that differ only
  in their body issue the same call, the call that is issued carries no body and has the
  method of the request, and \<open>httpRequest\<close> as a whole does the same for any two bodies.
\<close>

theorem body_never_attached:
  "issued (fst (request_begin P ex a (spec\<lparr>data := b1\<rparr>) T))
     = issued (fst (request_begin P ex a (spec\<lparr>data := b2\<rparr>) T))
   \<and> (\<forall>c. issued (fst (request_begin P ex a spec T)) = Some c \<longrightarrow>
          init_body c = None \<and> init_method c = http_method spec)
   \<and> httpRequest P cs m path q b1 hs T = httpRequest P cs m path q b2 hs T"
proof (intro conjI allI impI)
  show "issued (fst (request_begin P ex a (spec\<lparr>data := b1\<rparr>) T))
          = issued (fst (request_begin P ex a (spec\<lparr>data := b2\<rparr>) T))"
    by (simp only: request_begin_data)
next
  fix c
  assume "issued (fst (request_begin P ex a spec T)) = Some c"
  then obtain p where "fst (request_begin P ex a spec T) = Awaiting p" and "c = call p"
    by (auto simp: issued_def split: begun.splits)
  then show "init_body c = None" and "init_method c = http_method spec"
    by (simp_all add: request_begin_Awaiting)
next
  let ?s = "\<lambda>b. \<lparr>url = path, http_method = m, data = b, headers = hs, params = q\<rparr>"
  have "request_begin P ex a (?s b1) T = request_begin P ex a (?s b2) T" for ex a
    using request_begin_data [where P = P and ex = ex and a = a and spec = "?s b1" and b = b2 and T = T]
    by simp
  then have "request P hp a (?s b1) T = request P hp a (?s b2) T" for hp a
    by (simp add: request_def)
  then show "httpRequest P cs m path q b1 hs T = httpRequest P cs m path q b2 hs T"
    by (simp add: httpRequest_def)
qed

theorem body_never_attached_witness:
  "map_option init_body
     (issued (fst (request_begin (simple_platform TimerFires) example_executor 0
        ((example_spec plain_headers)\<lparr>data := Obj [(''Subject'', Str ''hello'')]\<rparr>) no_timers)))
     = Some None"
proof -
  have "issued (fst (request_begin (simple_platform TimerFires) example_executor 0
          ((example_spec plain_headers)\<lparr>data := Obj [(''Subject'', Str ''hello'')]\<rparr>) no_timers))
        \<noteq> None"
    by code_simp
  then show ?thesis
    using body_never_attached
      [where P = "simple_platform TimerFires" and ex = example_executor and a = 0 and T = no_timers
         and spec = "(example_spec plain_headers)\<lparr>data := Obj [(''Subject'', Str ''hello'')]\<rparr>"]
    by auto
qed

lemma example_begin:
  "fst (request_begin (simple_platform out) example_executor 0 (example_spec plain_headers) no_timers)
     = Awaiting (example_pending [(''Content-Type'', ''application/json'')])"
  by code_simp

section \<open>The Content-Type header\<close>

lemma join_snoc:
  "join sep (ys @ [z]) = (if ys = [] then z else join sep ys @ sep @ z)"
  by (induction sep ys rule: join.induct) simp_all

lemma appended_name:
  "same_name name (case find (same_name name) l of None \<Rightarrow> name | Some (n, _) \<Rightarrow> n, v)"
proof (cases "find (same_name name) l")
  case None
  then show ?thesis by (simp add: same_name_def)
next
  case (Some h)
  then have "same_name name h" by (auto simp: find_Some_iff)
  with Some show ?thesis by (cases h) (simp add: same_name_def)
qed

lemma Headers_append_list:
  assumes "Headers_append h name v = Inr h'"
  shows "header_list h' = header_list h @
           [(case find (same_name name) (header_list h) of None \<Rightarrow> name | Some (n, _) \<Rightarrow> n, v)]"
    and "guard h' = guard h"
  using assms by (auto simp: Headers_append_def split: if_splits)

lemma Headers_get_append:
  assumes "Headers_append h name v = Inr h'"
  shows "Headers_get h' name =
           Some (case Headers_get h name of None \<Rightarrow> v | Some old \<Rightarrow> old @ '', '' @ v)"
proof -
  let ?n = "case find (same_name name) (header_list h) of None \<Rightarrow> name | Some (n, _) \<Rightarrow> n"
  let ?old = "filter (same_name name) (header_list h)"
  have flt: "filter (same_name name) (header_list h') = ?old @ [(?n, v)]"
    using appended_name [of name "header_list h" v]
    by (simp add: Headers_append_list(1) [OF assms])
  have new: "Headers_get h' name = Some (join '', '' (map snd ?old @ [v]))"
    by (cases ?old) (simp_all add: Headers_get_def flt)
  show ?thesis
  proof (cases ?old)
    case Nil
    then have "Headers_get h name = None"
      by (simp add: Headers_get_def)
    with Nil show ?thesis by (simp add: new)
  next
    case (Cons x xs)
    then have "Headers_get h name = Some (join '', '' (map snd ?old))"
      by (simp add: Headers_get_def)
    moreover have "map snd ?old \<noteq> []" using Cons by simp
    ultimately show ?thesis by (simp only: new join_snoc) simp
  qed
qed

lemma lowercase_content_type: "byte_lowercase ''Content-Type'' = ''content-type''"
  by code_simp

text \<open>
  What line 32 does to the headers of a request that issues a call: the pair
  \<open>Content-Type: application/json\<close> is appended, whether or not a \<open>Content-Type\<close> was there.
  The headers of the caller are all kept, in order, and the new pair comes last.
\<close>

lemma content_type_appended:
  assumes "fst (request_begin P ex a spec T) = Awaiting p"
  shows "(\<exists>n. byte_lowercase n = ''content-type''
              \<and> header_list (init_headers (call p))
                  = header_list (headers spec) @ [(n, ''application/json'')])
       \<and> Headers_get (init_headers (call p)) ''Content-Type''
           = Some (case Headers_get (headers spec) ''Content-Type'' of
                     None \<Rightarrow> ''application/json''
                   | Some old \<Rightarrow> old @ '', '' @ ''application/json'')"
proof
  let ?n = "case find (same_name ''Content-Type'') (header_list (headers spec)) of
              None \<Rightarrow> ''Content-Type'' | Some (n, _) \<Rightarrow> n"
  have app: "Headers_append (headers spec) ''Content-Type'' ''application/json''
               = Inr (init_headers (call p))"
    using assms by (rule request_begin_Awaiting)
  then have "header_list (init_headers (call p))
               = header_list (headers spec) @ [(?n, ''application/json'')]"
    by (rule Headers_append_list)
  moreover have "byte_lowercase ?n = ''content-type''"
    using appended_name [of "''Content-Type''" "header_list (headers spec)" "''application/json''"]
    by (simp add: same_name_def lowercase_content_type)
  ultimately show "\<exists>n. byte_lowercase n = ''content-type''
              \<and> header_list (init_headers (call p))
                  = header_list (headers spec) @ [(n, ''application/json'')]"
    by blast
  show "Headers_get (init_headers (call p)) ''Content-Type''
           = Some (case Headers_get (headers spec) ''Content-Type'' of
                     None \<Rightarrow> ''application/json''
                   | Some old \<Rightarrow> old @ '', '' @ ''application/json'')"
    using app by (rule Headers_get_append)
qed

text \<open>
  C8. The request should go out with the content type \<open>application/json\<close>, set only if
  the caller gave none. The code appends instead of setting: a caller that supplies
  \<open>Content-Type: text/plain\<close> sends \<open>text/plain, application/json\<close>, and a caller that
  passes the same headers object to a second request sends
  \<open>application/json, application/json\<close>.
\<close>

theorem content_type_doubled:
  "Headers_get text_plain_headers ''Content-Type'' = Some ''text/plain''
   \<and> map_option (\<lambda>c. Headers_get (init_headers c) ''Content-Type'')
        (issued (fst (request_begin (simple_platform TimerFires) example_executor 0
                        (example_spec text_plain_headers) no_timers)))
       = Some (Some ''text/plain, application/json'')
   \<and> Headers_get plain_headers ''Content-Type'' = None
   \<and> map_option (\<lambda>c. Headers_get (init_headers c) ''Content-Type'')
        (issued (fst (request_begin (simple_platform TimerFires) example_executor 0
                        (example_spec (headers_after_request plain_headers)) no_timers)))
       = Some (Some ''application/json, application/json'')"
  by code_simp

section \<open>Exceptions that escape\<close>

text \<open>With headers that accept changes, \<open>request\<close> returns a result whatever the platform does.\<close>

lemma request_returns_result:
  assumes "guard (headers spec) = Mutable"
  shows "\<exists>r. fst (request P hp a spec T) = Inr r"
  using assms
  by (auto simp: request_def request_begin_def Headers_append_def split: prod.splits sum.splits begun.splits)

text \<open>
  C3. \<open>request\<close> should settle with a result on every input. The header is appended
  before the \<open>try\<close> block, so with headers whose guard is \<open>immutable\<close> the TypeError of
  \<open>append\<close> escapes and the promise of \<open>request\<close> rejects.
\<close>

theorem request_escapes:
  "fst (request (simple_platform (Responds \<lparr>status = 200, json = Inr (Obj [(''data'', Num 1)])\<rparr>))
          (\<lambda>a. example_executor) 0
          (example_spec \<lparr>guard = Immutable, header_list = []\<rparr>) no_timers)
     = Inl (JsError ''TypeError'' ''immutable'')"
  by code_simp

section \<open>The timer\<close>

lemma clearTimeout_not_armed: "\<not> is_armed i (clearTimeout i T)"
  by (auto simp: is_armed_def clearTimeout_def)

lemma timer_runs_not_armed: "\<not> is_armed i (timer_runs i T)"
  by (auto simp: is_armed_def timer_runs_def)

lemma timer_cleared_unless_rejected:
  assumes "\<forall>e. out \<noteq> Rejects e"
  shows "\<not> is_armed (timer p) (snd (request_resume P ex p out T))"
  using assms
  by (cases out)
     (auto simp: request_resume_def Let_def clearTimeout_not_armed timer_runs_not_armed
           split: sum.splits)

text \<open>
  C7. The timer should be cleared on every path that ends without the timer having run.
  \<open>clearTimeout\<close> is only reached when \<open>fetch\<close> resolves: on a transport failure the
  \<open>catch\<close> block returns the failure and the timer of 60000 milliseconds stays armed.
\<close>

theorem timer_left_armed:
  "request (simple_platform (Rejects (JsError ''TypeError'' ''fetch failed'')))
          (\<lambda>a. example_executor) 0 (example_spec plain_headers) no_timers
     = (Inr (Failure \<lparr>error_message = ''fetch failed'', errorCode = None, httpStatus = None\<rparr>),
        \<lparr>armed = [(0, 60000)], next_id = 1\<rparr>)"
  by code_simp

section \<open>Responses\<close>

lemma get_property_defined:
  assumes "d \<noteq> Null" and "d \<noteq> Undefined"
  shows "\<exists>v. get_property d k = Inr v"
  using assms by (cases d) simp_all

lemma fetch_simple_platform: "fetch (simple_platform out) c = out"
  by (simp add: simple_platform_def)

lemma request_Awaiting:
  assumes "ex = hp a" and "fst (request_begin P ex a spec T) = Awaiting p"
  shows "request P hp a spec T =
           (case request_resume P ex p (fetch P (call p)) (snd (request_begin P ex a spec T)) of
              (r, T2) \<Rightarrow> (Inr r, T2))"
proof -
  have "this p = a" using assms(2) by (rule request_begin_Awaiting)
  with assms show ?thesis
    by (cases "request_begin P ex a spec T") (simp add: request_def)
qed

lemma request_resume_response:
  assumes "json r = Inr d" and "get_property d ''ErrorCode'' = Inr c" and "get_property d ''data'' = Inr v"
  shows "fst (request_resume P ex p (Responds r) T) =
           (if validateStatus ex (status r) then Success v
            else Failure (PostmarkError_new ''Request failed'' (if is_number c then c else Bool False) (status r)))"
  using assms by (simp add: request_resume_def Let_def)

lemma httpRequest_fst:
  "fst (httpRequest P cs m path q body hs T) =
     (case fst (request P (heap (snd cs)) (client (fst cs))
                  \<lparr>url = path, http_method = m, data = body, headers = hs, params = q\<rparr> T) of
        Inl e \<Rightarrow> Inl (Native e)
      | Inr (Success d) \<Rightarrow> Inr d
      | Inr (Failure err) \<Rightarrow> Inl (Api err))"
  by (simp add: httpRequest_def split: prod.splits sum.splits result.splits)

lemma example_client_executor:
  "this_client (example_client None) = example_executor"
  "client (fst (example_client None)) = 0"
  by (simp_all add: example_client_def initHttpClient_client example_executor_def example_base_def
        spread_def getRequestTimeoutInMilliseconds_def)
     (simp add: initHttpClient_def fresh_client_def Let_def)

lemma request_resume_not_json:
  assumes "json r = Inl e"
  shows "fst (request_resume P ex p (Responds r) T) = caught e"
  using assms by (simp add: request_resume_def Let_def)

lemma request_resume_null:
  assumes "json r = Inr d" and "d = Null \<or> d = Undefined"
  shows "\<exists>e. fst (request_resume P ex p (Responds r) T) = caught e"
  using assms by (auto simp: request_resume_def Let_def)

text \<open>
  C4, as amended. For every response that \<open>httpRequest\<close> receives and whose body parses
  as JSON to a value other than \<open>null\<close>: when the status code satisfies the predicate,
  \<open>httpRequest\<close> resolves with the \<open>data\<close> property of the parsed body (\<open>undefined\<close> when
  there is none); when it does not, \<open>httpRequest\<close> throws an error whose HTTP status is
  that status code. For every response whose body is not JSON, or is \<open>null\<close>,
  \<open>httpRequest\<close> throws an error that has no HTTP status and no error code, whatever the
  status code; for a body that is not JSON its message is that of the parser.
\<close>

theorem httpRequest_unwraps_or_throws:
  assumes "ex = this_client cs"
      and "fst (request_begin P ex (client (fst cs))
                  \<lparr>url = path, http_method = m, data = body, headers = hs, params = q\<rparr> T) = Awaiting p"
      and "fetch P (call p) = Responds r"
  shows "(\<forall>d. json r = Inr d \<and> d \<noteq> Null \<and> d \<noteq> Undefined \<longrightarrow>
            (validateStatus ex (status r) \<longrightarrow>
               (\<exists>v. get_property d ''data'' = Inr v
                    \<and> fst (httpRequest P cs m path q body hs T) = Inr v))
          \<and> (\<not> validateStatus ex (status r) \<longrightarrow>
               (\<exists>e. fst (httpRequest P cs m path q body hs T) = Inl (Api e)
                    \<and> httpStatus e = Some (status r))))
       \<and> (\<forall>e. json r = Inl e \<longrightarrow>
            fst (httpRequest P cs m path q body hs T)
              = Inl (Api \<lparr>error_message = message e, errorCode = None, httpStatus = None\<rparr>))
       \<and> (json r = Inr Null \<or> json r = Inr Undefined \<longrightarrow>
            (\<exists>e. fst (httpRequest P cs m path q body hs T) = Inl (Api e)
                 \<and> httpStatus e = None \<and> errorCode e = None))"
proof -
  let ?spec = "\<lparr>url = path, http_method = m, data = body, headers = hs, params = q\<rparr>"
  have ex: "ex = heap (snd cs) (client (fst cs))"
    using assms(1) by (simp add: this_client_def)
  have run: "fst (request P (heap (snd cs)) (client (fst cs)) ?spec T) =
          Inr (fst (request_resume P ex p (Responds r) (snd (request_begin P ex (client (fst cs)) ?spec T))))"
    by (simp add: request_Awaiting [where hp = "heap (snd cs)" and a = "client (fst cs)", OF ex assms(2)]
          assms(3) split: prod.splits)
  have parsed: "(validateStatus ex (status r) \<longrightarrow>
               (\<exists>v. get_property d ''data'' = Inr v
                    \<and> fst (httpRequest P cs m path q body hs T) = Inr v))
          \<and> (\<not> validateStatus ex (status r) \<longrightarrow>
               (\<exists>e. fst (httpRequest P cs m path q body hs T) = Inl (Api e)
                    \<and> httpStatus e = Some (status r)))"
    if d: "json r = Inr d" "d \<noteq> Null" "d \<noteq> Undefined" for d
  proof -
    obtain c where c: "get_property d ''ErrorCode'' = Inr c"
      using get_property_defined [OF d(2,3)] by blast
    obtain v where v: "get_property d ''data'' = Inr v"
      using get_property_defined [OF d(2,3)] by blast
    have "fst (request P (heap (snd cs)) (client (fst cs)) ?spec T) =
            Inr (if validateStatus ex (status r) then Success v
                 else Failure (PostmarkError_new ''Request failed''
                                 (if is_number c then c else Bool False) (status r)))"
      using run by (simp only: request_resume_response [OF d(1) c v])
    then show ?thesis
      using v by (simp add: httpRequest_fst PostmarkError_new_def)
  qed
  have not_json: "fst (httpRequest P cs m path q body hs T)
              = Inl (Api \<lparr>error_message = message e, errorCode = None, httpStatus = None\<rparr>)"
    if "json r = Inl e" for e
    using run request_resume_not_json [OF that]
    by (simp add: httpRequest_fst caught_def PostmarkError_of_message_def)
  have null: "\<exists>e. fst (httpRequest P cs m path q body hs T) = Inl (Api e)
                 \<and> httpStatus e = None \<and> errorCode e = None"
    if "json r = Inr Null \<or> json r = Inr Undefined"
  proof -
    from that obtain d where "json r = Inr d" and "d = Null \<or> d = Undefined"
      by blast
    then obtain e where
      "fst (request_resume P ex p (Responds r) (snd (request_begin P ex (client (fst cs)) ?spec T))) = caught e"
      using request_resume_null by blast
    then show ?thesis
      using run by (simp add: httpRequest_fst caught_def PostmarkError_of_message_def)
  qed
  show ?thesis
    using parsed not_json null by blast
qed

theorem httpRequest_unwraps_or_throws_witness:
  "fst (httpRequest (simple_platform (json_response 200 (Obj [(''data'', Obj [(''MessageID'', Str ''m1'')])])))
          (example_client None) GET ''/x?a=1'' [(''b'', Num 2)] Null plain_headers no_timers)
     = Inr (Obj [(''MessageID'', Str ''m1'')])
   \<and> (\<exists>e. fst (httpRequest (simple_platform (json_response 404 (Obj [])))
                 (example_client None) GET ''/x?a=1'' [(''b'', Num 2)] Null plain_headers no_timers)
             = Inl (Api e)
           \<and> httpStatus e = Some 404)
   \<and> fst (httpRequest (simple_platform (html_response 200))
          (example_client None) GET ''/x?a=1'' [(''b'', Num 2)] Null plain_headers no_timers)
     = Inl (Api \<lparr>error_message = ''Unexpected token <'', errorCode = None, httpStatus = None\<rparr>)
   \<and> (\<exists>e. fst (httpRequest (simple_platform (json_response 200 Null))
                 (example_client None) GET ''/x?a=1'' [(''b'', Num 2)] Null plain_headers no_timers)
             = Inl (Api e)
           \<and> httpStatus e = None \<and> errorCode e = None)"
proof -
  let ?d1 = "Obj [(''data'', Obj [(''MessageID'', Str ''m1'')])]"
  let ?d2 = "Obj []"
  let ?html = "Inl (JsError ''SyntaxError'' ''Unexpected token <'') :: js_error + jsvalue"
  have yes: "validateStatus example_executor 200" and no: "\<not> validateStatus example_executor 404"
    by (simp_all add: example_executor_def WebFetch_new_def default_validateStatus_def)
  have spec: "\<lparr>url = ''/x?a=1'', http_method = GET, data = Null, headers = plain_headers,
                 params = [(''b'', Num 2)]\<rparr> = example_spec plain_headers"
    by (simp add: example_spec_def)
  note inst = httpRequest_unwraps_or_throws
            [where cs = "example_client None" and ex = example_executor
               and path = "''/x?a=1''" and m = GET and body = Null and hs = plain_headers
               and q = "[(''b'', Num 2)]" and T = no_timers
               and p = "example_pending [(''Content-Type'', ''application/json'')]"]
  show ?thesis
    using inst [where P = "simple_platform (json_response 200 ?d1)"
                  and r = "\<lparr>status = 200, json = Inr ?d1\<rparr>"]
          inst [where P = "simple_platform (json_response 404 ?d2)"
                  and r = "\<lparr>status = 404, json = Inr ?d2\<rparr>"]
          inst [where P = "simple_platform (html_response 200)"
                  and r = "\<lparr>status = 200, json = ?html\<rparr>"]
          inst [where P = "simple_platform (json_response 200 Null)"
                  and r = "\<lparr>status = 200, json = Inr Null\<rparr>"]
          yes no
    by (simp add: example_client_executor spec example_begin fetch_simple_platform
          json_response_def html_response_def)
qed

text \<open>
  A response with status 500 whose body is not JSON: the body is parsed before the status
  is looked at, so \<open>httpRequest\<close> throws the error of the parser, which has no HTTP status.
\<close>

theorem html_error_page_counterexample:
  "\<not> validateStatus (this_client (example_client None)) 500
   \<and> fst (httpRequest (simple_platform (html_response 500)) (example_client None)
            GET ''/x?a=1'' [(''b'', Num 2)] Null plain_headers no_timers)
     = Inl (Api \<lparr>error_message = ''Unexpected token <'', errorCode = None, httpStatus = None\<rparr>)"
  by code_simp


text \<open>
  C6, as amended. For every response that the predicate rejects and whose body parses as
  JSON to a value other than \<open>null\<close>, the failure carries the message \<open>Request failed\<close>,
  the status code of the response, and as error code the \<open>ErrorCode\<close> of the body when that
  is a number and \<open>false\<close> otherwise.
\<close>

theorem rejected_response_error:
  assumes "ex = hp a"
      and "fst (request_begin P ex a spec T) = Awaiting p"
      and "fetch P (call p) = Responds r"
      and "json r = Inr d" and "d \<noteq> Null" and "d \<noteq> Undefined"
      and "\<not> validateStatus ex (status r)"
  shows "\<exists>c. get_property d ''ErrorCode'' = Inr c \<and>
             fst (request P hp a spec T) =
               Inr (Failure \<lparr>error_message = ''Request failed'',
                             errorCode = Some (if is_number c then c else Bool False),
                             httpStatus = Some (status r)\<rparr>)"
proof -
  obtain c where c: "get_property d ''ErrorCode'' = Inr c"
    using get_property_defined [OF assms(5,6)] by blast
  obtain v where v: "get_property d ''data'' = Inr v"
    using get_property_defined [OF assms(5,6)] by blast
  have "fst (request P hp a spec T) =
          Inr (fst (request_resume P ex p (Responds r) (snd (request_begin P ex a spec T))))"
    by (simp add: request_Awaiting [where hp = hp and a = a, OF assms(1,2)] assms(3) split: prod.splits)
  then show ?thesis
    using c assms(7) by (simp add: request_resume_response [OF assms(4) c v] PostmarkError_new_def)
qed

theorem rejected_response_error_witness:
  "fst (request (simple_platform (json_response 422 (Obj [(''ErrorCode'', Num 300), (''Message'', Str ''Invalid'')])))
          (\<lambda>a. example_executor) 0 (example_spec plain_headers) no_timers)
     = Inr (Failure \<lparr>error_message = ''Request failed'', errorCode = Some (Num 300), httpStatus = Some 422\<rparr>)
   \<and> fst (request (simple_platform (json_response 422 (Obj [(''ErrorCode'', Str ''300'')])))
          (\<lambda>a. example_executor) 0 (example_spec plain_headers) no_timers)
     = Inr (Failure \<lparr>error_message = ''Request failed'', errorCode = Some (Bool False), httpStatus = Some 422\<rparr>)"
proof -
  let ?d1 = "Obj [(''ErrorCode'', Num 300), (''Message'', Str ''Invalid'')]"
  let ?d2 = "Obj [(''ErrorCode'', Str ''300'')]"
  have no: "\<not> validateStatus example_executor 422"
    by (simp add: example_executor_def WebFetch_new_def default_validateStatus_def)
  show ?thesis
    using rejected_response_error
            [where hp = "\<lambda>a. example_executor" and a = 0 and ex = example_executor
               and P = "simple_platform (json_response 422 ?d1)"
               and spec = "example_spec plain_headers" and T = no_timers
               and p = "example_pending [(''Content-Type'', ''application/json'')]"
               and r = "\<lparr>status = 422, json = Inr ?d1\<rparr>" and d = ?d1]
          rejected_response_error
            [where hp = "\<lambda>a. example_executor" and a = 0 and ex = example_executor
               and P = "simple_platform (json_response 422 ?d2)"
               and spec = "example_spec plain_headers" and T = no_timers
               and p = "example_pending [(''Content-Type'', ''application/json'')]"
               and r = "\<lparr>status = 422, json = Inr ?d2\<rparr>" and d = ?d2]
          no
    by (simp add: example_begin fetch_simple_platform json_response_def)
qed

text \<open>
  A rejected response whose body is the JSON value \<open>null\<close>: reading \<open>data.ErrorCode\<close>
  throws, and the failure has the message of that TypeError and no HTTP status.
\<close>

theorem null_body_counterexample:
  "\<not> validateStatus example_executor 422
   \<and> fst (request (simple_platform (json_response 422 Null))
          (\<lambda>a. example_executor) 0 (example_spec plain_headers) no_timers)
     = Inr (Failure \<lparr>error_message = ''Cannot read properties of null (reading 'ErrorCode')'',
                    errorCode = None, httpStatus = None\<rparr>)"
  by code_simp


section \<open>The validation predicate\<close>




section \<open>Initialising again\<close>

lemma request_resume_this:
  "request_resume P ex (p\<lparr>this := a\<rparr>) out T = request_resume P ex p out T"
  by (cases out) (simp_all add: request_resume_def)

lemma request_begin_this:
  "request_begin P ex a spec T =
     (case request_begin P ex a' spec T of
        (Awaiting p, T1) \<Rightarrow> (Awaiting (p\<lparr>this := a\<rparr>), T1)
      | (Escaped e, T1) \<Rightarrow> (Escaped e, T1)
      | (Finished r, T1) \<Rightarrow> (Finished r, T1))"
  by (simp add: request_begin_def split: prod.splits sum.splits)

lemma request_same_executor:
  assumes "hp a = hp' a'"
  shows "request P hp a spec T = request P hp' a' spec T"
proof (cases "request_begin P (hp' a') a' spec T")
  case (Pair b T1)
  then have fst: "fst (request_begin P (hp' a') a' spec T) = b" by simp
  show ?thesis
  proof (cases b)
    case (Awaiting p)
    then have "this p = a'" using fst request_begin_Awaiting(1) by blast
    then show ?thesis
      using Pair Awaiting assms
      by (simp add: request_def request_begin_this [of P "hp' a'" a spec T a'] request_resume_this)
  qed (use Pair assms in \<open>simp_all add: request_def request_begin_this [of P "hp' a'" a spec T a']\<close>)
qed

lemma httpRequest_same_executor:
  assumes "this_client cs = this_client cs'"
  shows "httpRequest P cs m path q body hs T = httpRequest P cs' m path q body hs T"
  using assms request_same_executor [of "heap (snd cs)" "client (fst cs)" "heap (snd cs')" "client (fst cs')"]
  by (simp add: httpRequest_def this_client_def)

lemma first_begin:
  "fst (request_begin (simple_platform out) (this_client first_client) (client (fst first_client))
          (example_spec plain_headers) no_timers) = Awaiting first_pending"
  by code_simp

text \<open>
  C9. A second call of \<open>initHttpClient\<close> builds the executor from the defaults and the new
  options alone and stores it at a new address; every object already in the store is left
  as it was, the previous executor among them, so a request that is waiting on the
  previous executor finishes as it would have without the second call; and every later
  \<open>httpRequest\<close> behaves as on a client initialised with the new options only.
\<close>

theorem initHttpClient_again:
  assumes "cs1 = initHttpClient B c1 cs0" and "cs2 = initHttpClient B c2 cs1"
  shows "this_client cs2 =
           WebFetch_new (getBaseHttpRequestURL B (spread (DefaultOptions B) c2))
                        (getRequestTimeoutInMilliseconds (spread (DefaultOptions B) c2))
                        default_validateStatus
       \<and> clientOptions (fst cs2) = spread (DefaultOptions B) c2
       \<and> client (fst cs2) \<noteq> client (fst cs1)
       \<and> (\<forall>a. a \<noteq> client (fst cs2) \<longrightarrow> heap (snd cs2) a = heap (snd cs1) a)
       \<and> heap (snd cs2) (client (fst cs1)) = this_client cs1
       \<and> (\<forall>spec T p out T'.
             fst (request_begin P (this_client cs1) (client (fst cs1)) spec T) = Awaiting p \<longrightarrow>
             request_resume P (heap (snd cs2) (this p)) p out T'
               = request_resume P (this_client cs1) p out T')
       \<and> (\<forall>m path q body hs T.
             httpRequest P cs2 m path q body hs T
               = httpRequest P (initHttpClient B c2 cs0) m path q body hs T)"
proof -
  have fresh: "client (fst cs2) \<noteq> client (fst cs1)"
    using assms by (simp add: initHttpClient_store)
  have frame: "heap (snd cs2) a = heap (snd cs1) a" if "a \<noteq> client (fst cs2)" for a
    using that assms(2) by (simp add: initHttpClient_store)
  have old: "heap (snd cs2) (client (fst cs1)) = this_client cs1"
    using frame [of "client (fst cs1)"] fresh by (simp add: this_client_def)
  have flight: "request_resume P (heap (snd cs2) (this p)) p out T'
                  = request_resume P (this_client cs1) p out T'"
    if "fst (request_begin P (this_client cs1) (client (fst cs1)) spec T) = Awaiting p"
    for spec T p out T'
  proof -
    have "this p = client (fst cs1)" using that by (rule request_begin_Awaiting)
    then show ?thesis by (simp add: old)
  qed
  have "this_client cs2 = this_client (initHttpClient B c2 cs0)"
    by (simp add: assms(2) initHttpClient_client)
  then have later: "httpRequest P cs2 m path q body hs T
               = httpRequest P (initHttpClient B c2 cs0) m path q body hs T" for m path q body hs T
    by (rule httpRequest_same_executor)
  show ?thesis
    using fresh frame old flight later
    by (simp add: assms(2) initHttpClient_client initHttpClient_store(3))
qed

theorem initHttpClient_again_witness:
  "baseURL (this_client second_client) = ''https://second.example''
   \<and> baseURL (heap (snd second_client) (client (fst first_client))) = ''https://first.example''
   \<and> fst (request_begin (simple_platform TimerFires) (this_client first_client) (client (fst first_client))
            (example_spec plain_headers) no_timers) = Awaiting first_pending
   \<and> request_resume (simple_platform TimerFires) (heap (snd second_client) (this first_pending)) first_pending
        (json_response 200 (Obj [(''data'', Num 7)])) no_timers
       = request_resume (simple_platform TimerFires) (this_client first_client) first_pending
        (json_response 200 (Obj [(''data'', Num 7)])) no_timers
   \<and> map_option input (issued (fst (request_begin (simple_platform TimerFires) (this_client second_client)
        (client (fst second_client)) (example_spec plain_headers) no_timers)))
       = Some ''https://second.example/x?b=2''"
proof -
  have a: "baseURL (this_client first_client) = ''https://first.example''"
    by code_simp
  have b: "map_option input (issued (fst (request_begin (simple_platform TimerFires) (this_client second_client)
        (client (fst second_client)) (example_spec plain_headers) no_timers)))
       = Some ''https://second.example/x?b=2''"
    by code_simp
  have c: "getBaseHttpRequestURL example_base (spread (DefaultOptions example_base) (host ''second.example''))
             = ''https://second.example''"
    by code_simp
  show ?thesis
    using initHttpClient_again
            [where ?cs1.0 = first_client and ?cs2.0 = second_client and B = example_base
               and ?c1.0 = "host ''first.example''" and ?c2.0 = "host ''second.example''"
               and ?cs0.0 = fresh_client and P = "simple_platform TimerFires"]
          first_begin [of TimerFires] a b c
    by (simp add: first_client_def [symmetric] second_client_def [symmetric] WebFetch_new_def)
qed

end
